theory Spec2Isabelle
  imports Complex_Main
begin

section \<open>Runtime values\<close>

text \<open>
  The validator of \<^verbatim>\<open>usePropTypes\<close> inspects arbitrary JavaScript values, and its type
  descriptors are JavaScript values themselves (strings, arrays and plain objects), so
  one datatype of values serves for both.

  \<^item> A number is a real, an infinity or \<^verbatim>\<open>NaN\<close>. Rounding plays no part in the
    validator; \<^verbatim>\<open>-0\<close> is left out, the code cannot tell it from \<^verbatim>\<open>0\<close>.
  \<^item> Functions, arrays and objects carry the reference that \<^verbatim>\<open>===\<close> compares.
    A function is opaque: the validator never calls a function it is given.
  \<^item> An object is the list of its own enumerable string-keyed properties in the order
    of \<^verbatim>\<open>Object.keys\<close>, with the constructors found on its prototype chain (what
    \<^verbatim>\<open>instanceof\<close> asks for). A property read looks at own properties only: no
    property name used below is taken to be a member of \<^verbatim>\<open>Object.prototype\<close>.
\<close>

type_synonym ref = nat

datatype jsnum = NaN | NegInf | Fin real | PosInf

datatype jsval =
    VUndefined
  | VNull
  | VBool bool
  | VNumber jsnum
  | VString string
  | VFunction ref
  | VArray ref "jsval list"
  | VObject ref "ref list" "(string \<times> jsval) list"

text \<open>The constructors \<^verbatim>\<open>Object\<close> and \<^verbatim>\<open>Array\<close>.\<close>

definition Object_ctor :: ref where
  "Object_ctor = 0"

definition Array_ctor :: ref where
  "Array_ctor = 1"

text \<open>An object literal \<^verbatim>\<open>{k1: v1, ...}\<close> allocated at reference \<open>r\<close>.\<close>

definition plain :: "ref \<Rightarrow> (string \<times> jsval) list \<Rightarrow> jsval" where
  "plain r ps = VObject r [Object_ctor] ps"

subsection \<open>Comparison of numbers\<close>

text \<open>The relational operators on numbers: every comparison with \<^verbatim>\<open>NaN\<close> is false.\<close>

fun js_lt :: "jsnum \<Rightarrow> jsnum \<Rightarrow> bool" where
  "js_lt NaN _ = False"
| "js_lt _ NaN = False"
| "js_lt PosInf _ = False"
| "js_lt _ NegInf = False"
| "js_lt NegInf _ = True"
| "js_lt _ PosInf = True"
| "js_lt (Fin a) (Fin b) = (a < b)"

definition js_gt :: "jsnum \<Rightarrow> jsnum \<Rightarrow> bool" where
  "js_gt a b = js_lt b a"

fun js_le :: "jsnum \<Rightarrow> jsnum \<Rightarrow> bool" where
  "js_le NaN _ = False"
| "js_le _ NaN = False"
| "js_le NegInf _ = True"
| "js_le _ PosInf = True"
| "js_le PosInf _ = False"
| "js_le _ NegInf = False"
| "js_le (Fin a) (Fin b) = (a \<le> b)"

definition js_ge :: "jsnum \<Rightarrow> jsnum \<Rightarrow> bool" where
  "js_ge a b = js_le b a"

subsection \<open>Operators on values\<close>

fun js_typeof :: "jsval \<Rightarrow> string" where
  "js_typeof VUndefined = ''undefined''"
| "js_typeof VNull = ''object''"
| "js_typeof (VBool _) = ''boolean''"
| "js_typeof (VNumber _) = ''number''"
| "js_typeof (VString _) = ''string''"
| "js_typeof (VFunction _) = ''function''"
| "js_typeof (VArray _ _) = ''object''"
| "js_typeof (VObject _ _ _) = ''object''"

fun Array_isArray :: "jsval \<Rightarrow> bool" where
  "Array_isArray (VArray _ _) = True"
| "Array_isArray _ = False"

text \<open>\<^verbatim>\<open>a === b\<close>: by value on primitives (\<^verbatim>\<open>NaN\<close> equals nothing), by reference on
  functions, arrays and objects.\<close>

fun strict_equals :: "jsval \<Rightarrow> jsval \<Rightarrow> bool" where
  "strict_equals VUndefined b = (b = VUndefined)"
| "strict_equals VNull b = (b = VNull)"
| "strict_equals (VBool a) b = (b = VBool a)"
| "strict_equals (VNumber a) b = (a \<noteq> NaN \<and> b = VNumber a)"
| "strict_equals (VString a) b = (b = VString a)"
| "strict_equals (VFunction r) b = (case b of VFunction r' \<Rightarrow> r = r' | _ \<Rightarrow> False)"
| "strict_equals (VArray r _) b = (case b of VArray r' _ \<Rightarrow> r = r' | _ \<Rightarrow> False)"
| "strict_equals (VObject r _ _) b = (case b of VObject r' _ _ \<Rightarrow> r = r' | _ \<Rightarrow> False)"

text \<open>SameValueZero, the comparison of \<^verbatim>\<open>Array.prototype.includes\<close>: as \<^verbatim>\<open>===\<close>,
  but \<^verbatim>\<open>NaN\<close> equals \<^verbatim>\<open>NaN\<close>.\<close>

fun same_value_zero :: "jsval \<Rightarrow> jsval \<Rightarrow> bool" where
  "same_value_zero (VNumber a) b = (b = VNumber a)"
| "same_value_zero a b = strict_equals a b"

definition array_includes :: "jsval list \<Rightarrow> jsval \<Rightarrow> bool" where
  "array_includes xs v = list_ex (\<lambda>x. same_value_zero x v) xs"

text \<open>Truthiness, for \<^verbatim>\<open>type.validator && ...\<close>.\<close>

fun js_truthy :: "jsval \<Rightarrow> bool" where
  "js_truthy VUndefined = False"
| "js_truthy VNull = False"
| "js_truthy (VBool b) = b"
| "js_truthy (VNumber n) = (n \<noteq> NaN \<and> n \<noteq> Fin 0)"
| "js_truthy (VString s) = (s \<noteq> [])"
| "js_truthy _ = True"

text \<open>\<^verbatim>\<open>Object.keys\<close>, \<^verbatim>\<open>Object.values\<close> and the property read \<^verbatim>\<open>o[k]\<close> of a
  non-null value (a missing property reads as \<^verbatim>\<open>undefined\<close>). On an array the keys are
  its indices; the validator only takes the keys of objects that are not arrays.\<close>

fun Object_keys :: "jsval \<Rightarrow> string list" where
  "Object_keys (VObject _ _ ps) = map fst ps"
| "Object_keys _ = []"

fun Object_values :: "jsval \<Rightarrow> jsval list" where
  "Object_values (VObject _ _ ps) = map snd ps"
| "Object_values (VArray _ xs) = xs"
| "Object_values _ = []"

fun get_prop :: "jsval \<Rightarrow> string \<Rightarrow> jsval" where
  "get_prop (VObject _ _ ps) k = (case map_of ps k of Some v \<Rightarrow> v | None \<Rightarrow> VUndefined)"
| "get_prop _ k = VUndefined"

text \<open>\<^verbatim>\<open>k in o\<close> for an object or array \<open>o\<close> and the names \<^verbatim>\<open>validator\<close> and
  \<^verbatim>\<open>type\<close>.\<close>

fun has_prop :: "jsval \<Rightarrow> string \<Rightarrow> bool" where
  "has_prop (VObject _ _ ps) k = (k \<in> set (map fst ps))"
| "has_prop _ k = False"

text \<open>The \<open>i\<close>-th argument of a call: a missing argument is \<^verbatim>\<open>undefined\<close>.\<close>

definition arg :: "nat \<Rightarrow> jsval list \<Rightarrow> jsval" where
  "arg i args = (if i < length args then args ! i else VUndefined)"

text \<open>\<^verbatim>\<open>v instanceof c\<close> for an object or array \<open>v\<close> and a constructor \<open>c\<close>.\<close>

fun instance_of :: "jsval \<Rightarrow> ref \<Rightarrow> bool" where
  "instance_of (VObject _ chain _) c = (c \<in> set chain)"
| "instance_of (VArray _ _) c = (c = Array_ctor \<or> c = Object_ctor)"
| "instance_of _ c = False"

section \<open>Results\<close>

text \<open>
  A validator returns \<^verbatim>\<open>true\<close> or a message. The text of a message is a template
  filled with \<^verbatim>\<open>${...}\<close> and \<^verbatim>\<open>JSON.stringify\<close>; the model keeps which template it is
  (one constructor per template, named after what it says) and the values put into it,
  not the rendered characters.
\<close>

datatype message =
    NotString jsval
  | NotNumber jsval
  | NotBool jsval
  | NotArray jsval
  | NotObject jsval
  | NotUndefined jsval
  | NotNull jsval
  | NotFunction jsval
  | ArrayOfTypesInvalid
  | ArrayOfTypesEmpty
  | InvalidItems "jsval list"
  | OneOfOptionsInvalid
  | OneOfOptionsEmpty
  | NotInOptions jsval "jsval list"
  | OneOfTypeTypesInvalid
  | OneOfTypeTypesEmpty
  | NoTypeMatches jsval "jsval list"
  | InstanceOfInvalid
  | NotInstance jsval ref
  | ShapeObjInvalid
  | ValueNotObject jsval
  | StrictInvalid
  | StrictNotNumber jsval
  | KeysMismatch "string list" "string list"
  | ExtraKeys "string list"
  | NoExpectedKey "string list"
  | KeyInvalid string string "jsval list"
  | RangeBoundsInvalid
  | MinGreaterThanMax
  | OutOfRange jsval jsnum jsnum
  | ValidatorNotValid string
  | TypesNotValid string "jsval list"

text \<open>What a call of a member of \<^verbatim>\<open>validators\<close> with one argument returns:
  \<^verbatim>\<open>true\<close>, a message, the label of \<^verbatim>\<open>validators.type\<close>, or (for the curried
  members, which only return their inner function) a closure.\<close>

datatype ret = RTrue | RMsg message | RLabel string | RClosure

text \<open>What the code can throw: a \<^verbatim>\<open>TypeError\<close> of the runtime, or the \<^verbatim>\<open>Error\<close> of
  \<^verbatim>\<open>validateType\<close> for a kind it does not know.\<close>

datatype exn = TypeError | UnknownType jsval

abbreviation Thrown :: "exn \<Rightarrow> exn + 'a" where
  "Thrown \<equiv> Inl"

abbreviation Returned :: "'a \<Rightarrow> exn + 'a" where
  "Returned \<equiv> Inr"

section \<open>The validators\<close>

subsection \<open>Basic validators\<close>

definition validators_string :: "jsval \<Rightarrow> ret" where
  "validators_string prop = (if js_typeof prop = ''string'' then RTrue else RMsg (NotString prop))"

definition validators_number :: "jsval \<Rightarrow> ret" where
  "validators_number prop = (if js_typeof prop = ''number'' then RTrue else RMsg (NotNumber prop))"

definition validators_bool :: "jsval \<Rightarrow> ret" where
  "validators_bool prop = (if js_typeof prop = ''boolean'' then RTrue else RMsg (NotBool prop))"

definition validators_array :: "jsval \<Rightarrow> ret" where
  "validators_array prop = (if Array_isArray prop then RTrue else RMsg (NotArray prop))"

definition validators_object :: "jsval \<Rightarrow> ret" where
  "validators_object prop =
     (if prop \<noteq> VNull \<and> js_typeof prop = ''object'' \<and> \<not> Array_isArray prop
      then RTrue else RMsg (NotObject prop))"

definition validators_undefined :: "jsval \<Rightarrow> ret" where
  "validators_undefined prop =
     (if js_typeof prop = ''undefined'' then RTrue else RMsg (NotUndefined prop))"

definition validators_null :: "jsval \<Rightarrow> ret" where
  "validators_null prop = (if prop = VNull then RTrue else RMsg (NotNull prop))"

definition validators_function :: "jsval \<Rightarrow> ret" where
  "validators_function prop =
     (if js_typeof prop = ''function'' then RTrue else RMsg (NotFunction prop))"

text \<open>\<^verbatim>\<open>validators.type\<close>: the label of a value. Every value passes one of the eight
  tests, so the final \<^verbatim>\<open>typeof\<close> is not reached; it is kept as written.\<close>

definition validators_type :: "jsval \<Rightarrow> string" where
  "validators_type prop =
     (if validators_array prop = RTrue then ''array''
      else if validators_object prop = RTrue then ''object''
      else if validators_null prop = RTrue then ''null''
      else if validators_undefined prop = RTrue then ''undefined''
      else if validators_string prop = RTrue then ''string''
      else if validators_number prop = RTrue then ''number''
      else if validators_bool prop = RTrue then ''bool''
      else if validators_function prop = RTrue then ''function''
      else js_typeof prop)"

subsection \<open>The members of the table\<close>

text \<open>The own properties of the object \<^verbatim>\<open>validators\<close>, every one a function.\<close>

datatype member =
    M_string | M_number | M_bool | M_array | M_object | M_undefined | M_null | M_function
  | M_arrayOf | M_oneOf | M_oneOfType | M_instanceOf | M_shape | M_range | M_type

definition member_named :: "string \<Rightarrow> member option" where
  "member_named s =
     map_of [(''string'', M_string), (''number'', M_number), (''bool'', M_bool),
             (''array'', M_array), (''object'', M_object), (''undefined'', M_undefined),
             (''null'', M_null), (''function'', M_function), (''arrayOf'', M_arrayOf),
             (''oneOf'', M_oneOf), (''oneOfType'', M_oneOfType),
             (''instanceOf'', M_instanceOf), (''shape'', M_shape), (''range'', M_range),
             (''type'', M_type)] s"

text \<open>
  The property read \<^verbatim>\<open>validators[t]\<close>, \<open>None\<close> for \<^verbatim>\<open>undefined\<close>. The key is the
  string of \<open>t\<close>: \<^verbatim>\<open>undefined\<close> and \<^verbatim>\<open>null\<close> read the members of those names, an
  array of one element reads as its element does (the empty string when that is
  \<^verbatim>\<open>undefined\<close> or \<^verbatim>\<open>null\<close>), and the strings of booleans, numbers, functions, longer
  arrays and objects name no member.
\<close>

fun validators_at :: "jsval \<Rightarrow> member option" where
  "validators_at (VString s) = member_named s"
| "validators_at VUndefined = Some M_undefined"
| "validators_at VNull = Some M_null"
| "validators_at (VArray _ [VUndefined]) = None"
| "validators_at (VArray _ [VNull]) = None"
| "validators_at (VArray _ [x]) = validators_at x"
| "validators_at _ = None"

text \<open>\<^verbatim>\<open>validators[m](item)\<close>, a call with one argument.\<close>

fun call1 :: "member \<Rightarrow> jsval \<Rightarrow> ret" where
  "call1 M_string v = validators_string v"
| "call1 M_number v = validators_number v"
| "call1 M_bool v = validators_bool v"
| "call1 M_array v = validators_array v"
| "call1 M_object v = validators_object v"
| "call1 M_undefined v = validators_undefined v"
| "call1 M_null v = validators_null v"
| "call1 M_function v = validators_function v"
| "call1 M_type v = RLabel (validators_type v)"
| "call1 _ v = RClosure"

text \<open>\<^verbatim>\<open>typeof validators[t] === 'function'\<close> and \<^verbatim>\<open>validators[t](item) === true\<close>;
  the second is only evaluated where the first holds.\<close>

definition is_validator :: "jsval \<Rightarrow> bool" where
  "is_validator t = (validators_at t \<noteq> None)"

definition passes :: "jsval \<Rightarrow> jsval \<Rightarrow> bool" where
  "passes t item = (case validators_at t of Some m \<Rightarrow> call1 m item = RTrue | None \<Rightarrow> False)"

subsection \<open>Curried validators\<close>

text \<open>The elements of an array (arrays are dense: no holes).\<close>

fun elements :: "jsval \<Rightarrow> jsval list" where
  "elements (VArray _ xs) = xs"
| "elements _ = []"

definition validators_arrayOf :: "jsval \<Rightarrow> jsval \<Rightarrow> ret" where
  "validators_arrayOf types prop =
     (if \<not> Array_isArray types \<or> \<not> list_all is_validator (elements types)
      then RMsg ArrayOfTypesInvalid
      else if length (elements types) = 0 then RMsg ArrayOfTypesEmpty
      else if \<not> Array_isArray prop then RMsg (NotArray prop)
      else let invalidItems =
                 filter (\<lambda>item. \<not> list_ex (\<lambda>t. passes t item) (elements types)) (elements prop)
           in if length invalidItems = 0 then RTrue else RMsg (InvalidItems invalidItems))"

definition validators_oneOf :: "jsval \<Rightarrow> jsval \<Rightarrow> ret" where
  "validators_oneOf options prop =
     (if \<not> Array_isArray options then RMsg OneOfOptionsInvalid
      else if length (elements options) = 0 then RMsg OneOfOptionsEmpty
      else if array_includes (elements options) prop then RTrue
      else RMsg (NotInOptions prop (elements options)))"

text \<open>With a single type the result of that validator is returned as it is. The type
  has passed the \<^verbatim>\<open>every\<close> test by then, so \<^verbatim>\<open>validators[types[0]]\<close> is a member; the
  \<open>None\<close> branch below is never taken.\<close>

definition validators_oneOfType :: "jsval \<Rightarrow> jsval \<Rightarrow> ret" where
  "validators_oneOfType types prop =
     (if \<not> Array_isArray types \<or> \<not> list_all is_validator (elements types)
      then RMsg OneOfTypeTypesInvalid
      else if length (elements types) = 0 then RMsg OneOfTypeTypesEmpty
      else if length (elements types) = 1
      then (case validators_at (hd (elements types)) of
              Some m \<Rightarrow> call1 m prop
            | None \<Rightarrow> RMsg OneOfTypeTypesInvalid)
      else if list_ex (\<lambda>t. passes t prop) (elements types) then RTrue
      else if list_ex (\<lambda>t. passes t prop) (elements types) then RTrue
      else RMsg (NoTypeMatches prop (elements types)))"

definition validators_instanceOf :: "jsval \<Rightarrow> jsval \<Rightarrow> ret" where
  "validators_instanceOf clazz prop =
     (case clazz of
        VFunction c \<Rightarrow>
          if js_typeof prop \<noteq> ''object'' \<or> prop = VNull then RMsg (NotObject prop)
          else if instance_of prop c then RTrue
          else RMsg (NotInstance prop c)
      | _ \<Rightarrow> RMsg InstanceOfInvalid)"

text \<open>\<^verbatim>\<open>range\<close> tests the bounds twice; both tests are kept.\<close>

definition validators_range :: "jsval \<Rightarrow> jsval \<Rightarrow> jsval \<Rightarrow> ret" where
  "validators_range lo_v hi_v prop =
     (case (lo_v, hi_v) of
        (VNumber lo, VNumber hi) \<Rightarrow>
          if js_gt lo hi then RMsg MinGreaterThanMax
          else (case prop of
                  VNumber p \<Rightarrow>
                    if js_lt p lo \<or> js_gt p hi then RMsg (OutOfRange prop lo hi)
                    else if js_ge p lo \<and> js_le p hi then RTrue
                    else RMsg (OutOfRange prop lo hi)
                | _ \<Rightarrow> RMsg (NotNumber prop))
      | _ \<Rightarrow> RMsg RangeBoundsInvalid)"

subsection \<open>The shape validator\<close>

text \<open>The default of the parameter \<^verbatim>\<open>strict\<close>: an argument that is missing or
  \<^verbatim>\<open>undefined\<close> is 0.\<close>

definition strict_or_default :: "jsval \<Rightarrow> jsval" where
  "strict_or_default strict = (if strict = VUndefined then VNumber (Fin 0) else strict)"

text \<open>
  \<^verbatim>\<open>validators[m](...args)(v)\<close> for a member other than \<^verbatim>\<open>shape\<close>: the curried
  members take their arguments and then the value; a basic validator and
  \<^verbatim>\<open>validators.type\<close> return something that is not a function, and calling it is a
  \<^verbatim>\<open>TypeError\<close>.
\<close>

definition call_curried :: "member \<Rightarrow> jsval list \<Rightarrow> jsval \<Rightarrow> exn + ret" where
  "call_curried m args v =
     (case m of
        M_arrayOf \<Rightarrow> Returned (validators_arrayOf (arg 0 args) v)
      | M_oneOf \<Rightarrow> Returned (validators_oneOf (arg 0 args) v)
      | M_oneOfType \<Rightarrow> Returned (validators_oneOfType (arg 0 args) v)
      | M_instanceOf \<Rightarrow> Returned (validators_instanceOf (arg 0 args) v)
      | M_range \<Rightarrow> Returned (validators_range (arg 0 args) (arg 1 args) v)
      | _ \<Rightarrow> Thrown TypeError)"

text \<open>\<^verbatim>\<open>... === true\<close> on a result that may have been thrown.\<close>

definition is_true :: "exn + ret \<Rightarrow> exn + bool" where
  "is_true x = (case x of Thrown e \<Rightarrow> Thrown e | Returned r \<Rightarrow> Returned (r = RTrue))"

text \<open>\<^verbatim>\<open>Array.isArray(shapeObj[key]) ? shapeObj[key] : [shapeObj[key]]\<close>: the types a
  key may have.\<close>

definition field_types :: "jsval \<Rightarrow> jsval list" where
  "field_types d = (if Array_isArray d then elements d else [d])"

text \<open>Two facts on sizes, for the termination of the validator: an argument taken from
  the values of a descriptor, and the elements of an array, are smaller than it.\<close>

lemma size_arg_values: "size (arg i (drop n (Object_values t))) \<le> size t"
proof (cases "i < length (drop n (Object_values t))")
  case False then show ?thesis by (simp add: arg_def)
next
  case True
  then have "arg i (drop n (Object_values t)) \<in> set (Object_values t)"
    by (metis arg_def in_set_dropD nth_mem)
  moreover have "x \<in> set (Object_values t) \<Longrightarrow> size x < size t" for x
  proof (cases t)
    case (VObject r c ps)
    assume "x \<in> set (Object_values t)"
    then obtain k where "(k, x) \<in> set ps" using VObject by auto
    then have "size_prod (\<lambda>x. 0) size (k, x) < Suc (size_list (size_prod (\<lambda>x. 0) size) ps)"
      by (metis less_Suc_eq_le size_list_estimation' order_refl)
    then show ?thesis using VObject by simp
  next
    case (VArray r xs)
    assume "x \<in> set (Object_values t)"
    then have "x \<in> set xs" using VArray by simp
    then have "size x < Suc (size_list size xs)"
      by (metis less_Suc_eq_le size_list_estimation' order_refl)
    then show ?thesis using VArray by simp
  qed auto
  ultimately show ?thesis by (simp add: less_imp_le)
qed

lemma size_field_types: "size_list size (field_types d) \<le> Suc (size d)"
  by (cases d) (auto simp: field_types_def)

text \<open>
  \<^verbatim>\<open>validators.shape(shapeObj, strict)(prop)\<close>, with its loop over the keys
  (\<open>check_keys\<close>), the \<^verbatim>\<open>types.some\<close> of one key (\<open>some_type\<close>) and the callback of
  that \<^verbatim>\<open>some\<close> (\<open>check_type\<close>).

  \<^item> The keys of an object are distinct, so the loop \<^verbatim>\<open>for (let key of keys)\<close> with its
    reads \<^verbatim>\<open>shapeObj[key]\<close> visits the properties of \<^verbatim>\<open>shapeObj\<close> in order.
  \<^item> The test \<^verbatim>\<open>strict < 0 || strict > 2\<close> comes before the test that \<^verbatim>\<open>strict\<close> is a
    number. For a \<^verbatim>\<open>strict\<close> that is not a number one of the two returns its message,
    which one depends on the number \<^verbatim>\<open>strict\<close> converts to; the model returns
    \<open>StrictNotNumber\<close> for both.
  \<^item> An exception thrown inside the callback leaves \<^verbatim>\<open>some\<close>, the loop and the
    validator.
\<close>

function validators_shape :: "jsval \<Rightarrow> jsval \<Rightarrow> jsval \<Rightarrow> exn + ret"
  and check_keys :: "(string \<times> jsval) list \<Rightarrow> jsval \<Rightarrow> jsval \<Rightarrow> exn + ret"
  and some_type :: "jsval list \<Rightarrow> jsval \<Rightarrow> jsval \<Rightarrow> exn + bool"
  and check_type :: "jsval \<Rightarrow> jsval \<Rightarrow> jsval \<Rightarrow> exn + bool"
where
  "validators_shape shapeObj strict0 prop =
     (case shapeObj of
        VObject r c fields \<Rightarrow>
          if js_typeof prop \<noteq> ''object'' \<or> prop = VNull \<or> Array_isArray prop
          then Returned (RMsg (ValueNotObject prop))
          else (case strict_or_default strict0 of
                  VNumber strict \<Rightarrow>
                    if js_lt strict (Fin 0) \<or> js_gt strict (Fin 2) then Returned (RMsg StrictInvalid)
                    else if strict = Fin 2 \<and> length (Object_keys prop) \<noteq> length (map fst fields)
                    then Returned (RMsg (KeysMismatch (map fst fields) (Object_keys prop)))
                    else if strict = Fin 2 \<and>
                        length (filter (\<lambda>key. key \<notin> set (map fst fields)) (Object_keys prop)) > 0
                    then Returned (RMsg (ExtraKeys
                           (filter (\<lambda>key. key \<notin> set (map fst fields)) (Object_keys prop))))
                    else if strict = Fin 1 \<and>
                        length (filter (\<lambda>key. key \<notin> set (map fst fields)) (Object_keys prop)) > 0
                    then Returned (RMsg (ExtraKeys
                           (filter (\<lambda>key. key \<notin> set (map fst fields)) (Object_keys prop))))
                    else if strict = Fin 1 \<and>
                        \<not> list_ex (\<lambda>key. get_prop prop key \<noteq> VUndefined) (map fst fields)
                    then Returned (RMsg (NoExpectedKey (map fst fields)))
                    else check_keys fields (VNumber strict) prop
                | _ \<Rightarrow> Returned (RMsg (StrictNotNumber (strict_or_default strict0))))
      | _ \<Rightarrow> Returned (RMsg ShapeObjInvalid))"
| "check_keys [] strict prop = Returned RTrue"
| "check_keys ((key, d) # rest) strict prop =
     (case some_type (field_types d) strict (get_prop prop key) of
        Thrown e \<Rightarrow> Thrown e
      | Returned isValid \<Rightarrow>
          if \<not> isValid
          then Returned (RMsg (KeyInvalid key (validators_type (get_prop prop key))
                                 (field_types d)))
          else check_keys rest strict prop)"
| "some_type [] strict v = Returned False"
| "some_type (t # ts) strict v =
     (case check_type t strict v of
        Thrown e \<Rightarrow> Thrown e
      | Returned ok \<Rightarrow> if ok then Returned True else some_type ts strict v)"
| "check_type t strict v =
     (if js_typeof t = ''string'' \<and> is_validator t then Returned (passes t v)
      else if js_typeof t = ''object'' then
        (if t = VNull then Thrown TypeError
         else if js_truthy (get_prop t ''validator'') \<and> is_validator (get_prop t ''validator'')
         then (if validators_at (get_prop t ''validator'') = Some M_shape
               then is_true (validators_shape (arg 0 (drop 1 (Object_values t)))
                                              (arg 1 (drop 1 (Object_values t))) v)
               else (case validators_at (get_prop t ''validator'') of
                       Some m \<Rightarrow> is_true (call_curried m (drop 1 (Object_values t)) v)
                     | None \<Rightarrow> Thrown TypeError))
         else if \<not> Array_isArray t \<and> t \<noteq> VNull then is_true (validators_shape t strict v)
         else Returned False)
      else Returned False)"
  by pat_completeness auto
termination validators_shape
  apply (relation "measure (\<lambda>x. case x of
            Inl (Inl (so, _, _)) \<Rightarrow> 4 * size so + 1
          | Inl (Inr (ps, _, _)) \<Rightarrow> 4 * size_list (size_prod (\<lambda>x. 0) size) ps + 4
          | Inr (Inl (ts, _, _)) \<Rightarrow> 4 * size_list size ts + 3
          | Inr (Inr (t, _, _)) \<Rightarrow> 4 * size t + 2)")
  apply simp
  apply simp
  subgoal for k d
    using size_field_types[of d] by auto
  apply simp
  apply simp
  apply simp
  subgoal for t
    using size_arg_values[of 0 1 t] by simp
  apply simp
  done

text \<open>The test of one key in the loop, \<^verbatim>\<open>isValid\<close>: the value \<open>v\<close> of the key satisfies
  the descriptor \<open>d\<close> that \<^verbatim>\<open>shapeObj\<close> gives the key, at the level \<open>strict\<close>.\<close>

definition satisfies :: "jsval \<Rightarrow> jsval \<Rightarrow> jsval \<Rightarrow> bool" where
  "satisfies d strict v = (some_type (field_types d) strict v = Returned True)"

subsection \<open>Descriptors that raise no exception\<close>

text \<open>
  The shape validator throws in two places, both in the callback: reading
  \<^verbatim>\<open>type.validator\<close> of a type that is \<^verbatim>\<open>null\<close>, and calling what a basic validator or
  \<^verbatim>\<open>validators.type\<close> returned when the \<^verbatim>\<open>validator\<close> property of a type names one of
  them. A \<^verbatim>\<open>shapeObj\<close> is safe when no type it offers for a key is of these two kinds, in
  the nested shapes it reaches as well.
\<close>





section \<open>The dispatcher of the hook\<close>

text \<open>
  \<^verbatim>\<open>validateType(type, prop)\<close>, the function that \<^verbatim>\<open>usePropTypes\<close> applies to each
  property: it reads the kind of the descriptor and calls the validator of that kind. The
  hook itself throws an \<^verbatim>\<open>Error\<close> built from whatever message comes back; that last
  step is the caller's and is not part of the function.
\<close>

text \<open>The kind: \<^verbatim>\<open>type.validator\<close>, else \<^verbatim>\<open>type.type\<close>, else \<^verbatim>\<open>type\<close> itself. The
  operator \<^verbatim>\<open>in\<close> throws on \<^verbatim>\<open>null\<close>.\<close>

definition validatorKey :: "jsval \<Rightarrow> exn + jsval" where
  "validatorKey t =
     (if js_typeof t = ''object'' then
        (if t = VNull then Thrown TypeError
         else if has_prop t ''validator'' then Returned (get_prop t ''validator'')
         else if has_prop t ''type'' then Returned (get_prop t ''type'')
         else Returned t)
      else Returned t)"

text \<open>\<^verbatim>\<open>types.map(t => (typeof t === 'object' && 'type' in t ? t.type : t))\<close>.\<close>

definition process_type :: "jsval \<Rightarrow> exn + jsval" where
  "process_type t =
     (if js_typeof t = ''object'' then
        (if t = VNull then Thrown TypeError
         else if has_prop t ''type'' then Returned (get_prop t ''type'')
         else Returned t)
      else Returned t)"

fun map_types :: "jsval list \<Rightarrow> exn + jsval list" where
  "map_types [] = Returned []"
| "map_types (t # ts) =
     (case process_type t of
        Thrown e \<Rightarrow> Thrown e
      | Returned p \<Rightarrow>
          (case map_types ts of Thrown e \<Rightarrow> Thrown e | Returned ps \<Rightarrow> Returned (p # ps)))"

text \<open>The array that \<^verbatim>\<open>map\<close> returns is a new one; no validator compares its
  reference, and the model allocates it at 0.\<close>

definition new_array :: "jsval list \<Rightarrow> jsval" where
  "new_array xs = VArray 0 xs"

text \<open>The two cases that take a list of types: \<^verbatim>\<open>types.map\<close> is a \<^verbatim>\<open>TypeError\<close> when
  \<^verbatim>\<open>types\<close> is not an array.\<close>

definition with_types :: "string \<Rightarrow> (jsval \<Rightarrow> jsval \<Rightarrow> ret) \<Rightarrow> jsval \<Rightarrow> jsval \<Rightarrow> exn + ret" where
  "with_types name validator types prop =
     (if \<not> Array_isArray types then Thrown TypeError
      else case map_types (elements types) of
        Thrown e \<Rightarrow> Thrown e
      | Returned processedTypes \<Rightarrow>
          if \<not> list_all is_validator processedTypes
          then Returned (RMsg (TypesNotValid name processedTypes))
          else Returned (validator (new_array processedTypes) prop))"

definition basic_names :: "string list" where
  "basic_names = [''string'', ''number'', ''bool'', ''array'', ''object'', ''undefined'',
                  ''null'', ''function'']"

definition validateType :: "jsval \<Rightarrow> jsval \<Rightarrow> exn + ret" where
  "validateType t prop =
     (case validatorKey t of
        Thrown e \<Rightarrow> Thrown e
      | Returned key \<Rightarrow>
          (case key of
             VString s \<Rightarrow>
               if s \<in> set basic_names then
                 (case member_named s of
                    Some m \<Rightarrow> Returned (call1 m prop)
                  | None \<Rightarrow> Returned (RMsg (ValidatorNotValid s)))
               else if s = ''arrayOf'' then
                 with_types ''arrayOf'' validators_arrayOf (get_prop t ''types'') prop
               else if s = ''oneOf'' then
                 Returned (validators_oneOf (get_prop t ''options'') prop)
               else if s = ''oneOfType'' then
                 with_types ''oneOfType'' validators_oneOfType (get_prop t ''types'') prop
               else if s = ''instanceOf'' then
                 Returned (validators_instanceOf (get_prop t ''clazz'') prop)
               else if s = ''shape'' then
                 validators_shape (get_prop t ''shapeObj'') (get_prop t ''strict'') prop
               else if s = ''range'' then
                 Returned (validators_range (get_prop t ''min'') (get_prop t ''max'') prop)
               else Thrown (UnknownType key)
           | _ \<Rightarrow> Thrown (UnknownType key)))"




section \<open>The descriptor helpers\<close>

text \<open>The members of \<^verbatim>\<open>types\<close>: each returns a new object, allocated at \<open>r\<close>.\<close>

definition types_string :: "ref \<Rightarrow> jsval" where
  "types_string r = plain r [(''type'', VString ''string'')]"

definition types_number :: "ref \<Rightarrow> jsval" where
  "types_number r = plain r [(''type'', VString ''number'')]"

definition types_bool :: "ref \<Rightarrow> jsval" where
  "types_bool r = plain r [(''type'', VString ''bool'')]"

definition types_array :: "ref \<Rightarrow> jsval" where
  "types_array r = plain r [(''type'', VString ''array'')]"

definition types_object :: "ref \<Rightarrow> jsval" where
  "types_object r = plain r [(''type'', VString ''object'')]"

definition types_undefined :: "ref \<Rightarrow> jsval" where
  "types_undefined r = plain r [(''type'', VString ''undefined'')]"

definition types_null :: "ref \<Rightarrow> jsval" where
  "types_null r = plain r [(''type'', VString ''null'')]"

definition types_function :: "ref \<Rightarrow> jsval" where
  "types_function r = plain r [(''type'', VString ''function'')]"

definition types_arrayOf :: "ref \<Rightarrow> jsval \<Rightarrow> jsval" where
  "types_arrayOf r types = plain r [(''validator'', VString ''arrayOf''), (''types'', types)]"

definition types_oneOf :: "ref \<Rightarrow> jsval \<Rightarrow> jsval" where
  "types_oneOf r options = plain r [(''validator'', VString ''oneOf''), (''options'', options)]"

definition types_oneOfType :: "ref \<Rightarrow> jsval \<Rightarrow> jsval" where
  "types_oneOfType r types = plain r [(''validator'', VString ''oneOfType''), (''types'', types)]"


definition types_shape :: "ref \<Rightarrow> jsval \<Rightarrow> jsval \<Rightarrow> jsval" where
  "types_shape r shapeObj strict =
     plain r [(''validator'', VString ''shape''), (''shapeObj'', shapeObj),
              (''strict'', strict_or_default strict)]"

definition types_range :: "ref \<Rightarrow> jsval \<Rightarrow> jsval \<Rightarrow> jsval" where
  "types_range r lo_v hi_v =
     plain r [(''validator'', VString ''range''), (''min'', lo_v), (''max'', hi_v)]"

text \<open>The interface \<^verbatim>\<open>BasicValidator\<close>: an object whose one property is \<^verbatim>\<open>type\<close>, the
  name of a basic kind. The lists of types of \<^verbatim>\<open>arrayOf\<close> and \<^verbatim>\<open>oneOfType\<close> are declared
  as lists of these.\<close>

fun is_basic :: "jsval \<Rightarrow> bool" where
  "is_basic (VObject r c [(n, VString k)]) = (n = ''type'' \<and> k \<in> set basic_names)"
| "is_basic _ = False"

section \<open>Notions of the specification\<close>

text \<open>The runtime type of a value, as the specification names the kinds.\<close>

fun runtime_kind :: "jsval \<Rightarrow> string" where
  "runtime_kind VUndefined = ''undefined''"
| "runtime_kind VNull = ''null''"
| "runtime_kind (VBool _) = ''bool''"
| "runtime_kind (VNumber _) = ''number''"
| "runtime_kind (VString _) = ''string''"
| "runtime_kind (VFunction _) = ''function''"
| "runtime_kind (VArray _ _) = ''array''"
| "runtime_kind (VObject _ _ _) = ''object''"

section \<open>Properties\<close>

text \<open>The equations of the shape validator and of its callback apply to any arguments:
  they are unfolded where a proof asks for them.\<close>

declare validators_shape.simps [simp del] check_type.simps [simp del]

subsection \<open>Descriptors of the helpers\<close>

lemma validateType_range:
  "validateType (types_range r lo_v hi_v) p = Returned (validators_range lo_v hi_v p)"
  by (simp add: validateType_def validatorKey_def types_range_def plain_def basic_names_def)

lemma validateType_oneOf:
  "validateType (types_oneOf r options) p = Returned (validators_oneOf options p)"
  by (simp add: validateType_def validatorKey_def types_oneOf_def plain_def basic_names_def)


lemma strict_or_default_idem [simp]:
  "strict_or_default (strict_or_default s) = strict_or_default s"
  by (simp add: strict_or_default_def)

lemma shape_default [simp]:
  "validators_shape shapeObj (strict_or_default s) p = validators_shape shapeObj s p"
  by (cases shapeObj; cases "s = VUndefined")
    (simp_all add: validators_shape.simps strict_or_default_def)

lemma validateType_shape:
  "validateType (types_shape r shapeObj strict) p = validators_shape shapeObj strict p"
  by (simp add: validateType_def validatorKey_def types_shape_def plain_def basic_names_def)

lemma validateType_arrayOf:
  "validateType (types_arrayOf r types) p = with_types ''arrayOf'' validators_arrayOf types p"
  by (simp add: validateType_def validatorKey_def types_arrayOf_def plain_def basic_names_def)

lemma validateType_oneOfType:
  "validateType (types_oneOfType r types) p = with_types ''oneOfType'' validators_oneOfType types p"
  by (simp add: validateType_def validatorKey_def types_oneOfType_def plain_def basic_names_def)

text \<open>A descriptor of a basic kind, \<^verbatim>\<open>{type: k}\<close>.\<close>

lemma validateType_basic:
  assumes "member_named k = Some m" and "k \<in> set basic_names"
  shows "validateType (VObject r c [(''type'', VString k)]) p = Returned (call1 m p)"
  using assms by (simp add: validateType_def validatorKey_def)

lemma basic_names_member:
  "k \<in> set basic_names \<Longrightarrow> \<exists>m. member_named k = Some m"
  by (auto simp: basic_names_def member_named_def)

subsection \<open>Basic kinds\<close>

lemma basic_validators:
  "validators_string v = RTrue \<longleftrightarrow> runtime_kind v = ''string''"
  "validators_number v = RTrue \<longleftrightarrow> runtime_kind v = ''number''"
  "validators_bool v = RTrue \<longleftrightarrow> runtime_kind v = ''bool''"
  "validators_array v = RTrue \<longleftrightarrow> runtime_kind v = ''array''"
  "validators_object v = RTrue \<longleftrightarrow> runtime_kind v = ''object''"
  "validators_undefined v = RTrue \<longleftrightarrow> runtime_kind v = ''undefined''"
  "validators_null v = RTrue \<longleftrightarrow> runtime_kind v = ''null''"
  "validators_function v = RTrue \<longleftrightarrow> runtime_kind v = ''function''"
  by (cases v; simp add: validators_string_def validators_number_def validators_bool_def
        validators_array_def validators_object_def validators_undefined_def
        validators_null_def validators_function_def)+

lemma member_named_basic:
  "member_named ''string'' = Some M_string"
  "member_named ''number'' = Some M_number"
  "member_named ''bool'' = Some M_bool"
  "member_named ''array'' = Some M_array"
  "member_named ''object'' = Some M_object"
  "member_named ''undefined'' = Some M_undefined"
  "member_named ''null'' = Some M_null"
  "member_named ''function'' = Some M_function"
  by (simp_all add: member_named_def)

lemma basic_kind:
  assumes "k \<in> set basic_names"
  shows "\<exists>m. member_named k = Some m \<and> (\<forall>v. call1 m v = RTrue \<longleftrightarrow> runtime_kind v = k)"
proof -
  have "k = ''string'' \<or> k = ''number'' \<or> k = ''bool'' \<or> k = ''array'' \<or> k = ''object''
      \<or> k = ''undefined'' \<or> k = ''null'' \<or> k = ''function''"
    using assms by (simp add: basic_names_def)
  then show ?thesis
    by (elim disjE) (simp_all add: member_named_basic basic_validators)
qed

subsection \<open>Numbers\<close>

lemma js_le_iff: "js_le a b \<longleftrightarrow> \<not> js_lt b a \<and> a \<noteq> NaN \<and> b \<noteq> NaN"
  by (cases a; cases b) auto

lemma range_result:
  assumes "js_le lo hi"
  shows "validators_range (VNumber lo) (VNumber hi) p =
    (case p of
       VNumber v \<Rightarrow> if js_le lo v \<and> js_le v hi then RTrue else RMsg (OutOfRange p lo hi)
     | _ \<Rightarrow> RMsg (NotNumber p))"
proof -
  have "\<not> js_gt lo hi"
    using assms by (simp add: js_le_iff js_gt_def)
  then show ?thesis
    by (cases p) (auto simp: validators_range_def js_gt_def js_ge_def js_le_iff)
qed

subsection \<open>Lists of basic descriptors\<close>

lemma is_basicE:
  assumes "is_basic d"
  obtains r c k where "d = VObject r c [(''type'', VString k)]" and "k \<in> set basic_names"
  using assms by (auto elim: is_basic.elims)

lemma is_validator_basic: "k \<in> set basic_names \<Longrightarrow> is_validator (VString k)"
  using basic_names_member [of k] by (auto simp: is_validator_def)

lemma passes_basic:
  assumes "k \<in> set basic_names"
  shows "passes (VString k) x \<longleftrightarrow> validateType (VObject r c [(''type'', VString k)]) x = Returned RTrue"
proof -
  obtain m where "member_named k = Some m"
    using basic_names_member [OF assms] by blast
  then show ?thesis
    using assms by (simp add: passes_def validateType_basic)
qed

lemma process_type_basic:
  "process_type (VObject r c [(''type'', VString k)]) = Returned (VString k)"
  by (simp add: process_type_def)

lemma map_types_basic:
  assumes "list_all is_basic ds"
  shows "map_types ds = Returned (map (\<lambda>d. get_prop d ''type'') ds)"
  using assms
proof (induction ds)
  case Nil
  then show ?case by simp
next
  case (Cons d ds)
  from Cons.prems have "is_basic d" by simp
  then obtain r c k where d: "d = VObject r c [(''type'', VString k)]"
    by (rule is_basicE)
  show ?case
    using Cons by (simp add: d process_type_basic)
qed

lemma names_valid:
  assumes "list_all is_basic ds"
  shows "list_all is_validator (map (\<lambda>d. get_prop d ''type'') ds)"
  using assms
proof (induction ds)
  case Nil
  then show ?case by simp
next
  case (Cons d ds)
  from Cons.prems have "is_basic d" by simp
  then obtain r c k where d: "d = VObject r c [(''type'', VString k)]" and k: "k \<in> set basic_names"
    by (rule is_basicE)
  show ?case
    using Cons k by (simp add: d is_validator_basic)
qed

lemma passes_name:
  assumes "is_basic d"
  shows "passes (get_prop d ''type'') x \<longleftrightarrow> validateType d x = Returned RTrue"
proof -
  from assms obtain r c k where d: "d = VObject r c [(''type'', VString k)]"
      and k: "k \<in> set basic_names"
    by (rule is_basicE)
  show ?thesis
    using passes_basic [OF k, of x r c] by (simp add: d)
qed

lemma ex_passes:
  assumes "list_all is_basic ds"
  shows "list_ex (\<lambda>t. passes t x) (map (\<lambda>d. get_prop d ''type'') ds)
     \<longleftrightarrow> (\<exists>d\<in>set ds. validateType d x = Returned RTrue)"
  using assms by (induction ds) (auto simp: passes_name)

lemma with_types_basic:
  assumes "list_all is_basic ds"
  shows "with_types name f (VArray r ds) p
     = Returned (f (new_array (map (\<lambda>d. get_prop d ''type'') ds)) p)"
  using assms by (simp add: with_types_def map_types_basic names_valid)

lemma validateType_types:
  "validateType (types_string r) v = Returned (validators_string v)"
  "validateType (types_number r) v = Returned (validators_number v)"
  "validateType (types_bool r) v = Returned (validators_bool v)"
  "validateType (types_array r) v = Returned (validators_array v)"
  "validateType (types_object r) v = Returned (validators_object v)"
  "validateType (types_undefined r) v = Returned (validators_undefined v)"
  "validateType (types_null r) v = Returned (validators_null v)"
  "validateType (types_function r) v = Returned (validators_function v)"
  by (simp_all add: types_string_def types_number_def types_bool_def types_array_def
      types_object_def types_undefined_def types_null_def types_function_def plain_def
      validateType_basic member_named_basic basic_names_def)

lemma is_basic_types:
  "is_basic (types_string r)" "is_basic (types_number r)" "is_basic (types_bool r)"
  "is_basic (types_array r)" "is_basic (types_object r)" "is_basic (types_undefined r)"
  "is_basic (types_null r)" "is_basic (types_function r)"
  by (simp_all add: types_string_def types_number_def types_bool_def types_array_def
      types_object_def types_undefined_def types_null_def types_function_def plain_def
      basic_names_def)

lemma arrayOf_result:
  assumes "list_all is_basic ds" and "ds \<noteq> []"
  shows "validateType (types_arrayOf r (VArray r' ds)) p =
     Returned (if \<not> Array_isArray p then RMsg (NotArray p)
        else if \<forall>x\<in>set (elements p). \<exists>d\<in>set ds. validateType d x = Returned RTrue then RTrue
        else RMsg (InvalidItems
               (filter (\<lambda>x. \<not> (\<exists>d\<in>set ds. validateType d x = Returned RTrue)) (elements p))))"
  using assms
  by (auto simp: validateType_arrayOf with_types_basic validators_arrayOf_def new_array_def
      names_valid ex_passes filter_empty_conv)

lemma oneOfType_result:
  assumes "list_all is_basic ds" and "ds \<noteq> []"
  shows "validateType (types_oneOfType r (VArray r' ds)) v = Returned RTrue
     \<longleftrightarrow> (\<exists>d\<in>set ds. validateType d v = Returned RTrue)"
proof (cases "length ds = 1")
  case True
  then obtain d where ds: "ds = [d]"
    by (cases ds) auto
  with assms have "is_basic d" by simp
  then obtain r1 c k where d: "d = VObject r1 c [(''type'', VString k)]"
      and k: "k \<in> set basic_names"
    by (rule is_basicE)
  obtain m where m: "member_named k = Some m"
    using basic_names_member [OF k] by blast
  show ?thesis
    using k m
    by (simp add: ds d validateType_oneOfType with_types_def process_type_basic
        is_validator_basic validators_oneOfType_def new_array_def validateType_basic)
next
  case False
  then show ?thesis
    using assms
    by (simp add: validateType_oneOfType with_types_basic validators_oneOfType_def
        new_array_def names_valid ex_passes)
qed

lemma oneOfType_single:
  assumes "is_basic d"
  shows "validateType (types_oneOfType r (VArray r' [d])) v = validateType d v"
proof -
  from assms obtain r1 c k where d: "d = VObject r1 c [(''type'', VString k)]"
      and k: "k \<in> set basic_names"
    by (rule is_basicE)
  obtain m where m: "member_named k = Some m"
    using basic_names_member [OF k] by blast
  show ?thesis
    using k m
    by (simp add: d validateType_oneOfType with_types_def process_type_basic
        is_validator_basic validators_oneOfType_def new_array_def validateType_basic)
qed

subsection \<open>Equality\<close>

lemma same_value_zero_iff:
  "same_value_zero x v \<longleftrightarrow> strict_equals x v \<or> (x = VNumber NaN \<and> v = VNumber NaN)"
  by (cases x) auto

subsection \<open>Shapes\<close>

lemma check_keys_true:
  "check_keys fields strict p = Returned RTrue
     \<longleftrightarrow> (\<forall>(k, d)\<in>set fields. satisfies d strict (get_prop p k))"
proof (induction fields)
  case Nil
  then show ?case by simp
next
  case (Cons f fields)
  obtain k d where f: "f = (k, d)" by (cases f)
  show ?case
  proof (cases "some_type (field_types d) strict (get_prop p k)")
    case (Inl e)
    then show ?thesis by (simp add: f satisfies_def)
  next
    case (Inr ok)
    then show ?thesis using Cons by (simp add: f satisfies_def)
  qed
qed


lemma shape_objects:
  "validators_shape (VObject r c fields) (VNumber n) (VObject q c' ps) =
     (if js_lt n (Fin 0) \<or> js_gt n (Fin 2) then Returned (RMsg StrictInvalid)
      else if n = Fin 2 \<and> length ps \<noteq> length fields
      then Returned (RMsg (KeysMismatch (map fst fields) (map fst ps)))
      else if (n = Fin 2 \<or> n = Fin 1) \<and> filter (\<lambda>k. k \<notin> set (map fst fields)) (map fst ps) \<noteq> []
      then Returned (RMsg (ExtraKeys (filter (\<lambda>k. k \<notin> set (map fst fields)) (map fst ps))))
      else if n = Fin 1 \<and> (\<forall>k\<in>set (map fst fields). get_prop (VObject q c' ps) k = VUndefined)
      then Returned (RMsg (NoExpectedKey (map fst fields)))
      else check_keys fields (VNumber n) (VObject q c' ps))"
  by (auto simp: validators_shape.simps strict_or_default_def list_ex_iff filter_map)


lemma check_type_nested:
  assumes "\<not> has_prop (VObject r c ps) ''validator''"
  shows "check_type (VObject r c ps) strict v = is_true (validators_shape (VObject r c ps) strict v)"
proof -
  have "map_of ps ''validator'' = None"
    using assms by (simp add: map_of_eq_None_iff)
  then show ?thesis
    by (simp add: check_type.simps)
qed

lemma some_type_nested:
  assumes "\<not> has_prop (VObject r c ps) ''validator''"
  shows "some_type (field_types (VObject r c ps)) strict v
     = is_true (validators_shape (VObject r c ps) strict v)"
  using check_type_nested [OF assms, of strict v]
  by (cases "validators_shape (VObject r c ps) strict v") (simp_all add: field_types_def is_true_def)

lemma shape_true:
  assumes "validators_shape (VObject r c fields) strict0 p = Returned RTrue"
  shows "\<exists>n. strict_or_default strict0 = VNumber n
            \<and> check_keys fields (VNumber n) p = Returned RTrue"
  using assms
  by (auto simp: validators_shape.simps split: if_splits jsval.splits)

subsection \<open>Evaluation\<close>

lemma shape_not_object:
  assumes "js_typeof p \<noteq> ''object'' \<or> p = VNull \<or> Array_isArray p"
  shows "validators_shape (VObject r c fields) strict p = Returned (RMsg (ValueNotObject p))"
  using assms by (auto simp: validators_shape.simps)


lemma satisfies_list:
  "satisfies (VArray r ts) strict v \<longleftrightarrow> some_type ts strict v = Returned True"
  by (simp add: satisfies_def field_types_def)

lemmas shape_eval =
  validateType_shape shape_objects shape_not_object js_gt_def field_types_def
  check_type.simps is_validator_def passes_def member_named_def is_true_def
  validators_string_def validators_number_def validators_bool_def validators_array_def
  validators_object_def validators_undefined_def validators_null_def validators_function_def
  validators_type_def

subsection \<open>Exceptions\<close>

lemma is_true_Returned: "\<exists>b. is_true (Returned res) = Returned b"
  by (simp add: is_true_def)








section \<open>The claims\<close>

subsection \<open>Messages and exceptions (C1)\<close>




subsection \<open>Lenient shapes (C2)\<close>




subsection \<open>Allowed options (C3)\<close>

text \<open>
  C3, as the code has it. \<^verbatim>\<open>oneOf\<close> looks the value up with \<^verbatim>\<open>options.includes\<close>, whose
  comparison is SameValueZero and not \<^verbatim>\<open>===\<close>: the two differ on \<^verbatim>\<open>NaN\<close>, which
  \<^verbatim>\<open>includes\<close> finds in a list that holds it. For a non-empty list of options validation
  succeeds if and only if the value is the same (SameValueZero) as a member, that is,
  \<^verbatim>\<open>===\<close> to it or both are \<^verbatim>\<open>NaN\<close>; otherwise the message carries the value and the
  whole list of options.
\<close>

theorem oneOf_membership:
  "(opts \<noteq> [] \<longrightarrow>
      (validateType (types_oneOf r (VArray r' opts)) v = Returned RTrue
         \<longleftrightarrow> (\<exists>x\<in>set opts. same_value_zero x v))
    \<and> (validateType (types_oneOf r (VArray r' opts)) v \<noteq> Returned RTrue \<longrightarrow>
         validateType (types_oneOf r (VArray r' opts)) v = Returned (RMsg (NotInOptions v opts))))
   \<and> (same_value_zero x v \<longleftrightarrow> strict_equals x v \<or> (x = VNumber NaN \<and> v = VNumber NaN))"
  using same_value_zero_iff [of x v]
  by (simp add: validateType_oneOf validators_oneOf_def array_includes_def list_ex_iff)

theorem oneOf_membership_witness:
  "validateType (types_oneOf 0 (VArray 1 [VString ''red'', VString ''green'', VString ''blue'']))
       (VString ''red'') = Returned RTrue
   \<and> validateType (types_oneOf 0 (VArray 1 [VString ''red'', VString ''green'', VString ''blue'']))
       (VString ''yellow'')
       = Returned (RMsg (NotInOptions (VString ''yellow'')
                           [VString ''red'', VString ''green'', VString ''blue'']))
   \<and> validateType (types_oneOf 0 (VArray 1 [plain 2 []])) (plain 3 []) \<noteq> Returned RTrue"
  using oneOf_membership [where opts = "[VString ''red'', VString ''green'', VString ''blue'']"
      and r = 0 and r' = 1 and v = "VString ''red''"]
    oneOf_membership [where opts = "[VString ''red'', VString ''green'', VString ''blue'']"
      and r = 0 and r' = 1 and v = "VString ''yellow''"]
    oneOf_membership [where opts = "[plain 2 []]" and r = 0 and r' = 1 and v = "plain 3 []"]
  by (simp add: plain_def)

text \<open>The claim as stated, with \<^verbatim>\<open>===\<close>, fails on \<^verbatim>\<open>NaN\<close>: \<^verbatim>\<open>oneOf([NaN])\<close> accepts
  \<^verbatim>\<open>NaN\<close>, which is \<^verbatim>\<open>===\<close> to no member of the list.\<close>

theorem oneOf_strict_equality_counterexample:
  "validateType (types_oneOf 0 (VArray 1 [VNumber NaN])) (VNumber NaN) = Returned RTrue
   \<and> \<not> list_ex (strict_equals (VNumber NaN)) [VNumber NaN]"
  by (simp add: validateType_oneOf validators_oneOf_def array_includes_def)

subsection \<open>Exact shapes (C4)\<close>



subsection \<open>Shapes without extra keys (C5)\<close>



subsection \<open>Basic kinds (C6)\<close>

text \<open>
  C6. For each of the eight basic kinds \<open>k\<close> and every value \<open>v\<close>, validating \<open>v\<close> against
  the descriptor \<^verbatim>\<open>{type: k}\<close> succeeds if and only if the runtime type of \<open>v\<close> is \<open>k\<close>;
  the object check succeeds exactly for the values that are not \<^verbatim>\<open>null\<close>, have
  \<^verbatim>\<open>typeof\<close> \<^verbatim>\<open>object\<close> and are not arrays.
\<close>

theorem primitive_kinds:
  "(k \<in> set basic_names \<longrightarrow>
      (validateType (VObject r c [(''type'', VString k)]) v = Returned RTrue
         \<longleftrightarrow> runtime_kind v = k))
   \<and> (validateType (types_object r) v = Returned RTrue
         \<longleftrightarrow> v \<noteq> VNull \<and> js_typeof v = ''object'' \<and> \<not> Array_isArray v)"
proof -
  have "validateType (VObject r c [(''type'', VString k)]) v = Returned RTrue
      \<longleftrightarrow> runtime_kind v = k" if k: "k \<in> set basic_names"
  proof -
    obtain m where "member_named k = Some m" and "\<forall>v. call1 m v = RTrue \<longleftrightarrow> runtime_kind v = k"
      using basic_kind [OF k] by blast
    then show ?thesis
      using k by (simp add: validateType_basic)
  qed
  moreover have "validateType (types_object r) v = Returned RTrue
         \<longleftrightarrow> v \<noteq> VNull \<and> js_typeof v = ''object'' \<and> \<not> Array_isArray v"
    by (simp add: types_object_def plain_def validateType_def validatorKey_def basic_names_def
        member_named_def validators_object_def)
  ultimately show ?thesis by blast
qed

theorem primitive_kinds_witness:
  "''object'' \<in> set basic_names
   \<and> validateType (types_object 0) (plain 1 [(''a'', VNumber (Fin 1))]) = Returned RTrue
   \<and> validateType (types_object 0) (VArray 1 []) \<noteq> Returned RTrue
   \<and> validateType (types_object 0) VNull \<noteq> Returned RTrue"
proof -
  have k: "''object'' \<in> set basic_names"
    by (simp add: basic_names_def)
  have kind: "validateType (types_object 0) v = Returned RTrue \<longleftrightarrow> runtime_kind v = ''object''"
    for v
    using primitive_kinds [of "''object''" 0 "[Object_ctor]" v] k
    unfolding types_object_def plain_def by blast
  show ?thesis
    using k by (simp add: kind plain_def)
qed

subsection \<open>Arrays of kinds (C7)\<close>

text \<open>
  C7. For an \<^verbatim>\<open>arrayOf\<close> descriptor whose list of element kinds is a non-empty list of
  basic descriptors: a value that is not an array fails with the not-an-array message; an
  array succeeds if and only if each of its elements validates against at least one of
  the listed kinds, so the empty array succeeds; and an array that fails gets the message
  that lists its invalid elements, in order.
\<close>

theorem arrayOf_elements:
  "list_all is_basic ds \<and> ds \<noteq> [] \<longrightarrow>
     (\<not> Array_isArray p \<longrightarrow>
        validateType (types_arrayOf r (VArray r' ds)) p = Returned (RMsg (NotArray p)))
   \<and> (validateType (types_arrayOf r (VArray r' ds)) (VArray q xs) = Returned RTrue
        \<longleftrightarrow> (\<forall>x\<in>set xs. \<exists>d\<in>set ds. validateType d x = Returned RTrue))
   \<and> validateType (types_arrayOf r (VArray r' ds)) (VArray q []) = Returned RTrue
   \<and> (validateType (types_arrayOf r (VArray r' ds)) (VArray q xs) \<noteq> Returned RTrue \<longrightarrow>
        validateType (types_arrayOf r (VArray r' ds)) (VArray q xs)
          = Returned (RMsg (InvalidItems
              (filter (\<lambda>x. \<not> (\<exists>d\<in>set ds. validateType d x = Returned RTrue)) xs))))"
  by (simp add: arrayOf_result)

theorem arrayOf_elements_witness:
  "list_all is_basic [types_string 3, types_number 4]
   \<and> validateType (types_arrayOf 0 (VArray 1 [types_string 3, types_number 4]))
        (VArray 5 [VString ''a'', VNumber (Fin 2)]) = Returned RTrue
   \<and> validateType (types_arrayOf 0 (VArray 1 [types_string 3, types_number 4]))
        (VArray 5 []) = Returned RTrue
   \<and> validateType (types_arrayOf 0 (VArray 1 [types_string 3, types_number 4]))
        (VArray 5 [VString ''a'', VBool True]) = Returned (RMsg (InvalidItems [VBool True]))
   \<and> validateType (types_arrayOf 0 (VArray 1 [types_string 3, types_number 4]))
        (VString ''a'') = Returned (RMsg (NotArray (VString ''a'')))"
proof -
  have h: "list_all is_basic [types_string 3, types_number 4]
      \<and> [types_string 3, types_number 4] \<noteq> []"
    by (simp add: is_basic_types)
  show ?thesis
    using h
      arrayOf_elements [where ds = "[types_string 3, types_number 4]" and r = 0 and r' = 1
        and q = 5 and p = "VString ''a''" and xs = "[VString ''a'', VNumber (Fin 2)]"]
      arrayOf_elements [where ds = "[types_string 3, types_number 4]" and r = 0 and r' = 1
        and q = 5 and p = "VString ''a''" and xs = "[VString ''a'', VBool True]"]
    by (simp add: validateType_types validators_string_def validators_number_def)
qed

subsection \<open>Alternatives (C8)\<close>

text \<open>
  C8. For a \<^verbatim>\<open>oneOfType\<close> descriptor whose alternatives are a non-empty list of basic
  descriptors, validation succeeds if and only if the value validates against at least
  one alternative (the validators have no effects, so trying them in order and stopping
  at the first success is the existence of one); with exactly one alternative the result,
  message included, is that of the alternative. \<^verbatim>\<open>oneOfType([string, number])\<close> rejects
  \<^verbatim>\<open>true\<close> and accepts \<^verbatim>\<open>"x"\<close> and \<^verbatim>\<open>42\<close>.
\<close>

theorem oneOfType_alternatives:
  "list_all is_basic ds \<and> ds \<noteq> [] \<longrightarrow>
     (validateType (types_oneOfType r (VArray r' ds)) v = Returned RTrue
        \<longleftrightarrow> (\<exists>d\<in>set ds. validateType d v = Returned RTrue))
   \<and> (length ds = 1 \<longrightarrow>
        validateType (types_oneOfType r (VArray r' ds)) v = validateType (hd ds) v)"
proof (intro impI conjI)
  assume a: "list_all is_basic ds \<and> ds \<noteq> []"
  then show "validateType (types_oneOfType r (VArray r' ds)) v = Returned RTrue
        \<longleftrightarrow> (\<exists>d\<in>set ds. validateType d v = Returned RTrue)"
    by (simp add: oneOfType_result)
  assume "length ds = 1"
  then obtain d where ds: "ds = [d]"
    by (cases ds) auto
  with a have "is_basic d" by simp
  then show "validateType (types_oneOfType r (VArray r' ds)) v = validateType (hd ds) v"
    by (simp add: ds oneOfType_single)
qed

theorem oneOfType_alternatives_witness:
  "list_all is_basic [types_string 3, types_number 4]
   \<and> validateType (types_oneOfType 0 (VArray 1 [types_string 3, types_number 4])) (VBool True)
       \<noteq> Returned RTrue
   \<and> validateType (types_oneOfType 0 (VArray 1 [types_string 3, types_number 4])) (VString ''x'')
       = Returned RTrue
   \<and> validateType (types_oneOfType 0 (VArray 1 [types_string 3, types_number 4]))
       (VNumber (Fin 42)) = Returned RTrue
   \<and> validateType (types_oneOfType 0 (VArray 1 [types_string 3])) (VBool True)
       = Returned (RMsg (NotString (VBool True)))"
proof -
  have h: "list_all is_basic [types_string 3, types_number 4]
      \<and> [types_string 3, types_number 4] \<noteq> []"
    by (simp add: is_basic_types)
  have h1: "list_all is_basic [types_string 3] \<and> [types_string 3] \<noteq> []"
    by (simp add: is_basic_types)
  show ?thesis
    using h h1
      oneOfType_alternatives [where ds = "[types_string 3, types_number 4]" and r = 0
        and r' = 1 and v = "VBool True"]
      oneOfType_alternatives [where ds = "[types_string 3, types_number 4]" and r = 0
        and r' = 1 and v = "VString ''x''"]
      oneOfType_alternatives [where ds = "[types_string 3, types_number 4]" and r = 0
        and r' = 1 and v = "VNumber (Fin 42)"]
      oneOfType_alternatives [where ds = "[types_string 3]" and r = 0 and r' = 1
        and v = "VBool True"]
    by (simp add: validateType_types validators_string_def validators_number_def)
qed

subsection \<open>Ranges (C9)\<close>

text \<open>
  C9. For a range descriptor with numeric bounds \<open>lo \<le> hi\<close>: a number \<open>v\<close> validates if and
  only if \<open>lo \<le> v \<le> hi\<close>, both bounds included; a number outside fails with the message
  that names the value and the bounds \<open>[lo, hi]\<close>; a value that is not a number fails. A
  descriptor with \<open>lo > hi\<close> is answered with a message, for every value, not with an
  exception.
\<close>

theorem range_inclusive:
  "(js_le lo hi \<longrightarrow>
      (validateType (types_range r (VNumber lo) (VNumber hi)) (VNumber v) = Returned RTrue
         \<longleftrightarrow> js_le lo v \<and> js_le v hi)
    \<and> (\<not> (js_le lo v \<and> js_le v hi) \<longrightarrow>
          validateType (types_range r (VNumber lo) (VNumber hi)) (VNumber v)
            = Returned (RMsg (OutOfRange (VNumber v) lo hi)))
    \<and> (js_typeof p \<noteq> ''number'' \<longrightarrow>
          validateType (types_range r (VNumber lo) (VNumber hi)) p = Returned (RMsg (NotNumber p))))
   \<and> (js_gt lo hi \<longrightarrow>
        validateType (types_range r (VNumber lo) (VNumber hi)) p = Returned (RMsg MinGreaterThanMax))"
proof -
  have "js_typeof p \<noteq> ''number'' \<Longrightarrow>
      (case p of VNumber v \<Rightarrow> if js_le lo v \<and> js_le v hi then RTrue else RMsg (OutOfRange p lo hi)
       | _ \<Rightarrow> RMsg (NotNumber p)) = RMsg (NotNumber p)"
    by (cases p) auto
  moreover have "js_gt lo hi \<Longrightarrow>
      validators_range (VNumber lo) (VNumber hi) p = RMsg MinGreaterThanMax"
    by (simp add: validators_range_def)
  ultimately show ?thesis
    by (simp add: validateType_range range_result)
qed

theorem range_inclusive_witness:
  "js_le (Fin 1) (Fin 10) \<and> js_gt (Fin 10) (Fin 1)
   \<and> validateType (types_range 0 (VNumber (Fin 1)) (VNumber (Fin 10))) (VNumber (Fin 5)) = Returned RTrue
   \<and> validateType (types_range 0 (VNumber (Fin 1)) (VNumber (Fin 10))) (VNumber (Fin 11))
       = Returned (RMsg (OutOfRange (VNumber (Fin 11)) (Fin 1) (Fin 10)))
   \<and> validateType (types_range 0 (VNumber (Fin 1)) (VNumber (Fin 10))) (VString ''5'')
       = Returned (RMsg (NotNumber (VString ''5'')))
   \<and> validateType (types_range 0 (VNumber (Fin 10)) (VNumber (Fin 1))) (VNumber (Fin 5))
       = Returned (RMsg MinGreaterThanMax)"
  using range_inclusive [of "Fin 1" "Fin 10" 0 "Fin 5" "VString ''5''"]
        range_inclusive [of "Fin 1" "Fin 10" 0 "Fin 11" "VString ''5''"]
        range_inclusive [of "Fin 10" "Fin 1" 0 "Fin 5" "VNumber (Fin 5)"]
  by (simp add: js_gt_def)

subsection \<open>Nested shapes (C10)\<close>

text \<open>
  C10. A field descriptor that is a plain object without a \<^verbatim>\<open>validator\<close> property is a
  nested shape, and it is validated at the strictness of the enclosing shape: the test of
  the field is \<^verbatim>\<open>validators.shape(nested, strict)(value) === true\<close> with the same
  \<open>strict\<close> (an exception of the nested validator passes through). Hence, whenever a shape
  validates at some strictness, each of its nested shapes validates the value of its key
  at that strictness.
\<close>

theorem nested_shape_strictness:
  "\<not> has_prop (VObject r c ps) ''validator'' \<longrightarrow>
     some_type (field_types (VObject r c ps)) strict v
       = is_true (validators_shape (VObject r c ps) strict v)
   \<and> (satisfies (VObject r c ps) strict v
        \<longleftrightarrow> validators_shape (VObject r c ps) strict v = Returned RTrue)
   \<and> (validators_shape (VObject ro co fields) strict p = Returned RTrue
        \<and> (key, VObject r c ps) \<in> set fields \<longrightarrow>
      validators_shape (VObject r c ps) strict (get_prop p key) = Returned RTrue)"
proof (intro impI conjI)
  assume nv: "\<not> has_prop (VObject r c ps) ''validator''"
  show st: "some_type (field_types (VObject r c ps)) s w
       = is_true (validators_shape (VObject r c ps) s w)" for s w
    using nv by (rule some_type_nested)
  show sat: "satisfies (VObject r c ps) s w
        \<longleftrightarrow> validators_shape (VObject r c ps) s w = Returned RTrue" for s w
    by (cases "validators_shape (VObject r c ps) s w") (simp_all add: satisfies_def st is_true_def)
  assume "validators_shape (VObject ro co fields) strict p = Returned RTrue
        \<and> (key, VObject r c ps) \<in> set fields"
  then obtain n where n: "strict_or_default strict = VNumber n"
      and "check_keys fields (VNumber n) p = Returned RTrue"
      and "(key, VObject r c ps) \<in> set fields"
    using shape_true by blast
  then have "satisfies (VObject r c ps) (VNumber n) (get_prop p key)"
    by (auto simp: check_keys_true)
  then have "validators_shape (VObject r c ps) (strict_or_default strict) (get_prop p key)
      = Returned RTrue"
    by (simp add: sat n)
  then show "validators_shape (VObject r c ps) strict (get_prop p key) = Returned RTrue"
    by simp
qed

theorem nested_shape_strictness_witness:
  "\<not> has_prop (plain 2 [(''key'', VString ''number'')]) ''validator''
   \<and> validators_shape (plain 1 [(''nested'', plain 2 [(''key'', VString ''number'')])])
        (VNumber (Fin 2)) (plain 3 [(''nested'', plain 4 [(''key'', VNumber (Fin 0))])])
       = Returned RTrue
   \<and> validators_shape (plain 2 [(''key'', VString ''number'')]) (VNumber (Fin 2))
        (plain 4 [(''key'', VNumber (Fin 0))]) = Returned RTrue
   \<and> satisfies (plain 2 [(''key'', VString ''number'')]) (VNumber (Fin 0))
        (plain 4 [(''key'', VNumber (Fin 0)), (''alt'', VString ''cero'')])
   \<and> \<not> satisfies (plain 2 [(''key'', VString ''number'')]) (VNumber (Fin 2))
        (plain 4 [(''key'', VNumber (Fin 0)), (''alt'', VString ''cero'')])"
proof -
  have nv: "\<not> has_prop (VObject 2 [Object_ctor] [(''key'', VString ''number'')]) ''validator''"
    by simp
  note t = nested_shape_strictness [where r = 2 and c = "[Object_ctor]"
      and ps = "[(''key'', VString ''number'')]", THEN mp, OF nv]
  have sat: "satisfies (VObject 2 [Object_ctor] [(''key'', VString ''number'')]) s w
      \<longleftrightarrow> validators_shape (VObject 2 [Object_ctor] [(''key'', VString ''number'')]) s w
            = Returned RTrue" for s w
    using t by blast
  have outer: "validators_shape
        (VObject 1 [Object_ctor]
           [(''nested'', VObject 2 [Object_ctor] [(''key'', VString ''number'')])])
        (VNumber (Fin 2))
        (VObject 3 [Object_ctor] [(''nested'', VObject 4 [Object_ctor] [(''key'', VNumber (Fin 0))])])
      = Returned RTrue"
    by (simp add: shape_eval)
  have inner: "validators_shape (VObject 2 [Object_ctor] [(''key'', VString ''number'')])
        (VNumber (Fin 2))
        (get_prop (VObject 3 [Object_ctor]
           [(''nested'', VObject 4 [Object_ctor] [(''key'', VNumber (Fin 0))])]) ''nested'')
      = Returned RTrue"
    by (rule t [THEN conjunct2, THEN conjunct2, THEN mp, OF conjI, OF outer]) simp
  have lenient: "validators_shape (VObject 2 [Object_ctor] [(''key'', VString ''number'')])
        (VNumber (Fin 0))
        (VObject 4 [Object_ctor] [(''key'', VNumber (Fin 0)), (''alt'', VString ''cero'')])
      = Returned RTrue"
    by (simp add: shape_eval)
  have exact: "validators_shape (VObject 2 [Object_ctor] [(''key'', VString ''number'')])
        (VNumber (Fin 2))
        (VObject 4 [Object_ctor] [(''key'', VNumber (Fin 0)), (''alt'', VString ''cero'')])
      \<noteq> Returned RTrue"
    by (simp add: shape_eval)
  show ?thesis
    using nv outer inner lenient exact by (simp add: plain_def sat)
qed

end
